theory Spec2Isabelle
  imports Complex_Main "HOL-Library.Word"
begin

section \<open>Tomato disease classifier: weight loader and request handlers of main.py\<close>

subsection \<open>Exceptions\<close>

text \<open>
  The Python exceptions that the serving module can meet. All of them, \<open>HTTPException\<close>
  included, are subclasses of \<open>Exception\<close>, so an \<open>except Exception\<close> clause catches
  every constructor of this type.
\<close>

datatype exn =
    OSError string
  | KeyError string
  | ValueError string
  | AttributeError string
  | IndexError string
  | UnidentifiedImageError string
  | UnicodeDecodeError string
  | HTTPException nat string
  | OtherError string

subsection \<open>Network and weight container\<close>

text \<open>
  A stored or assigned parameter array: its shape and its numeric content. The content is
  only moved around by the loader, so its type is left open.
\<close>

record 'a weight =
  wshape :: "nat list"
  wdata :: 'a

text \<open>
  A layer of the network: its name and its current parameter arrays, in declaration
  order. The shapes of the current arrays are the layer's expected parameter signature.
\<close>

record 'a layer =
  name :: string
  weights :: "'a weight list"

text \<open>
  A name stored in an attribute of the container is a text string or a byte string. A
  text string is written as its UTF-8 bytes, as every \<open>string\<close> here.
\<close>

datatype h5str = Str string | Bytes string

text \<open>
  The HDF5 container. A layer's sub-group has the attribute \<open>weight_names\<close> (possibly
  absent) and named datasets; the weight group has the attribute \<open>layer_names\<close>
  (possibly absent) and named sub-groups; the file has an optional member
  \<open>model_weights\<close> and is a weight group itself otherwise.
\<close>

record 'a layer_group =
  weight_names :: "h5str list option"
  datasets :: "string \<rightharpoonup> 'a weight"

record 'a weight_group =
  layer_names :: "h5str list option"
  groups :: "string \<rightharpoonup> 'a layer_group"

record 'a h5file =
  model_weights :: "'a weight_group option"
  top_level :: "'a weight_group"

definition h5_path :: string where
  "h5_path = ''best_tomato_model.h5''"

text \<open>\<open>attrs.get(key, [])\<close>: the attribute's entries, or the empty list.\<close>

definition attrs_get :: "'b list option \<Rightarrow> 'b list" where
  "attrs_get a = (case a of None \<Rightarrow> [] | Some ns \<Rightarrow> ns)"

text \<open>
  \<open>bytes.decode('utf8')\<close> accepts the well-formed UTF-8 sequences: one byte below 128;
  a lead byte 194 to 223 and one continuation byte; a lead byte 224 to 239 and two
  continuation bytes, without overlong forms and surrogates; a lead byte 240 to 244 and
  three continuation bytes, up to the last code point. Anything else raises
  \<open>UnicodeDecodeError\<close>.
\<close>

definition continuation :: "char \<Rightarrow> bool" where
  "continuation c = (128 \<le> (of_char c :: nat) \<and> (of_char c :: nat) \<le> 191)"

fun valid_utf8 :: "string \<Rightarrow> bool" where
  "valid_utf8 [] = True"
| "valid_utf8 (c # cs) =
     (let b = (of_char c :: nat) in
      if b < 128 then valid_utf8 cs
      else if 194 \<le> b \<and> b \<le> 223 then
        (case cs of
           c1 # r \<Rightarrow> continuation c1 \<and> valid_utf8 r
         | _ \<Rightarrow> False)
      else if 224 \<le> b \<and> b \<le> 239 then
        (case cs of
           c1 # c2 # r \<Rightarrow>
             continuation c1 \<and> (if b = 224 then 160 \<le> (of_char c1 :: nat) else True) \<and>
             (if b = 237 then (of_char c1 :: nat) \<le> 159 else True) \<and>
             continuation c2 \<and> valid_utf8 r
         | _ \<Rightarrow> False)
      else if 240 \<le> b \<and> b \<le> 244 then
        (case cs of
           c1 # c2 # c3 # r \<Rightarrow>
             continuation c1 \<and> (if b = 240 then 144 \<le> (of_char c1 :: nat) else True) \<and>
             (if b = 244 then (of_char c1 :: nat) \<le> 143 else True) \<and>
             continuation c2 \<and> continuation c3 \<and> valid_utf8 r
         | _ \<Rightarrow> False)
      else False)"

text \<open>
  \<open>n.decode('utf8') if hasattr(n, 'decode') else n\<close>: a byte string is decoded, a text
  string is taken as it is.
\<close>

fun decode :: "h5str \<Rightarrow> exn + string" where
  "decode (Str s) = Inr s"
| "decode (Bytes b) = (if valid_utf8 b then Inr b else Inl (UnicodeDecodeError ''utf-8''))"

text \<open>
  The list comprehensions of lines 47 and 48 and of lines 54 and 55: the entries are
  decoded in order and the first one that cannot be decoded raises.
\<close>

fun decode_names :: "h5str list \<Rightarrow> exn + string list" where
  "decode_names [] = Inr []"
| "decode_names (n # rest) =
     (case decode n of
        Inl e \<Rightarrow> Inl e
      | Inr s \<Rightarrow>
          (case decode_names rest of
             Inl e \<Rightarrow> Inl e
           | Inr names \<Rightarrow> Inr (s # names)))"

text \<open>
  \<open>layer.set_weights(ws)\<close> of the framework. The number of arrays and every shape must
  agree with the layer's parameters, otherwise \<open>ValueError\<close> is raised. The source names
  no version of the framework, and the versions differ in what a refused call leaves
  behind. Keras 2 checks every shape before it assigns anything. Keras 3 checks the
  number first and then goes through the parameters in order, assigning each array
  whose shape agrees and raising at the first one whose shape does not, so that the
  arrays before that one are already overwritten. A refused call gives the exception
  and the layer as it is left.
\<close>

datatype keras = Keras2 | Keras3

fun assign_until_mismatch :: "'a weight list \<Rightarrow> 'a weight list \<Rightarrow> 'a weight list" where
  "assign_until_mismatch (variable # variables) (v # vs) =
     (if wshape variable \<noteq> wshape v then variable # variables
      else v # assign_until_mismatch variables vs)"
| "assign_until_mismatch variables vs = variables"

definition set_weights ::
  "keras \<Rightarrow> 'a layer \<Rightarrow> 'a weight list \<Rightarrow> (exn \<times> 'a layer) + 'a layer" where
  "set_weights version layer ws =
     (if length ws \<noteq> length (weights layer) then Inl (ValueError (name layer), layer)
      else if map wshape ws \<noteq> map wshape (weights layer) then
        Inl (ValueError (name layer),
             (case version of
                Keras2 \<Rightarrow> layer
              | Keras3 \<Rightarrow> layer\<lparr>weights := assign_until_mismatch (weights layer) ws\<rparr>))
      else Inr (layer\<lparr>weights := ws\<rparr>))"

text \<open>
  Lines 56 to 58: the arrays named by \<open>weight_names\<close>, in order. A name without a
  dataset raises \<open>KeyError\<close>.
\<close>

fun read_weights :: "'a layer_group \<Rightarrow> string list \<Rightarrow> exn + 'a weight list" where
  "read_weights g [] = Inr []"
| "read_weights g (weight_name # rest) =
     (case datasets g weight_name of
        None \<Rightarrow> Inl (KeyError weight_name)
      | Some weight \<Rightarrow>
          (case read_weights g rest of
             Inl e \<Rightarrow> Inl e
           | Inr layer_weights \<Rightarrow> Inr (weight # layer_weights)))"

text \<open>
  Lines 51 to 60, the body of the loop for one layer. The result is \<open>Inl (e, layer')\<close>
  when the body raises \<open>e\<close> and leaves the layer as \<open>layer'\<close>, \<open>Inr None\<close> when it ends
  without calling \<open>set_weights\<close>, and \<open>Inr (Some layer')\<close> when \<open>set_weights\<close> was
  called and accepted the arrays, leaving the layer as \<open>layer'\<close>.
\<close>

definition load_layer ::
  "keras \<Rightarrow> 'a weight_group \<Rightarrow> string list \<Rightarrow> 'a layer \<Rightarrow> (exn \<times> 'a layer) + 'a layer option" where
  "load_layer version weight_group lnames layer =
     (if name layer \<in> set lnames then
        (case groups weight_group (name layer) of
           None \<Rightarrow> Inl (KeyError (name layer), layer)
         | Some g \<Rightarrow>
             (case decode_names (attrs_get (weight_names g)) of
                Inl e \<Rightarrow> Inl (e, layer)
              | Inr wnames \<Rightarrow>
                  (case read_weights g wnames of
                     Inl e \<Rightarrow> Inl (e, layer)
                   | Inr layer_weights \<Rightarrow>
                       (if layer_weights \<noteq> [] then
                          (case set_weights version layer layer_weights of
                             Inl refused \<Rightarrow> Inl refused
                           | Inr layer' \<Rightarrow> Inr (Some layer'))
                        else Inr None))))
      else Inr None)"

text \<open>
  Line 50, the loop over \<open>model.layers\<close>. The layers are mutated in place, so an
  exception leaves the network as it is at that moment: the layers already visited as
  they were assigned, the raising layer as the body left it, the ones after it as they
  were. The result is that network together with the exception, if any.
\<close>

fun load_layers ::
  "keras \<Rightarrow> 'a weight_group \<Rightarrow> string list \<Rightarrow> 'a layer list \<Rightarrow> 'a layer list \<times> exn option" where
  "load_layers version weight_group lnames [] = ([], None)"
| "load_layers version weight_group lnames (layer # rest) =
     (case load_layer version weight_group lnames layer of
        Inl (e, layer') \<Rightarrow> (layer' # rest, Some e)
      | Inr r \<Rightarrow>
          (case load_layers version weight_group lnames rest of
             (rest', err) \<Rightarrow> ((case r of None \<Rightarrow> layer | Some layer' \<Rightarrow> layer') # rest', err)))"

text \<open>Lines 42 to 45: the group that holds the layers.\<close>

definition root_group :: "'a h5file \<Rightarrow> 'a weight_group" where
  "root_group f = (case model_weights f of Some g \<Rightarrow> g | None \<Rightarrow> top_level f)"

text \<open>
  The layer names the container records, as the loader reads them at lines 47 and 48; a
  file that cannot be opened and an attribute that cannot be decoded give none.
\<close>

definition recorded_layer_names :: "'a h5file option \<Rightarrow> string list" where
  "recorded_layer_names file =
     (case file of
        None \<Rightarrow> []
      | Some f \<Rightarrow>
          (case decode_names (attrs_get (layer_names (root_group f))) of
             Inl e \<Rightarrow> []
           | Inr lnames \<Rightarrow> lnames))"

text \<open>
  Lines 41 to 60, the body of the \<open>try\<close> block up to the end of the \<open>with\<close> statement.
  The file at \<open>h5_path\<close> is \<open>None\<close> when it does not exist or is not an HDF5 file; opening
  it then raises \<open>OSError\<close>.
\<close>

definition load_body ::
  "keras \<Rightarrow> 'a h5file option \<Rightarrow> 'a layer list \<Rightarrow> 'a layer list \<times> exn option" where
  "load_body version file model =
     (case file of
        None \<Rightarrow> (model, Some (OSError h5_path))
      | Some f \<Rightarrow>
          (case decode_names (attrs_get (layer_names (root_group f))) of
             Inl e \<Rightarrow> (model, Some e)
           | Inr lnames \<Rightarrow> load_layers version (root_group f) lnames model))"

text \<open>\<open>model.count_params()\<close>: the number of scalars in all parameter arrays.\<close>

definition count_params :: "'a layer list \<Rightarrow> nat" where
  "count_params model = sum_list (map (\<lambda>l. sum_list (map (\<lambda>w. prod_list (wshape w)) (weights l))) model)"

text \<open>What the module prints at lines 62 to 68.\<close>

datatype message =
    MsgLoaded
  | MsgInputShape
  | MsgOutputShape
  | MsgTotalParams nat
  | MsgError exn
  | MsgRandomWeights

text \<open>The state of the process once the module is imported: the network and the output.\<close>

record 'a server =
  model :: "'a layer list"
  printed :: "message list"

text \<open>Lines 40 to 68: the \<open>try\<close> block with its \<open>except Exception\<close> clause.\<close>

definition startup :: "keras \<Rightarrow> 'a h5file option \<Rightarrow> 'a layer list \<Rightarrow> 'a server" where
  "startup version file model0 =
     (case load_body version file model0 of
        (m, None) \<Rightarrow>
          \<lparr>model = m, printed = [MsgLoaded, MsgInputShape, MsgOutputShape, MsgTotalParams (count_params m)]\<rparr>
      | (m, Some e) \<Rightarrow>
          \<lparr>model = m, printed = [MsgError e, MsgRandomWeights]\<rparr>)"

text \<open>
  The layer as the loader leaves it when the loop body for it runs to its end: the
  assigned layer when \<open>set_weights\<close> was called, the layer itself otherwise.
\<close>

definition assigned_layer :: "keras \<Rightarrow> 'a h5file option \<Rightarrow> 'a layer \<Rightarrow> 'a layer" where
  "assigned_layer version file layer =
     (case file of
        None \<Rightarrow> layer
      | Some f \<Rightarrow>
          (case load_layer version (root_group f) (recorded_layer_names (Some f)) layer of
             Inr (Some layer') \<Rightarrow> layer'
           | _ \<Rightarrow> layer))"

text \<open>
  The loop gets as far as the lookup of the sub-group of a layer \<open>l\<close> that comes after
  the layers \<open>pre\<close>: the loop body raised for none of \<open>pre\<close>, and the name of \<open>l\<close> is
  among the recorded layer names.
\<close>

definition loop_reaches :: "keras \<Rightarrow> 'a h5file \<Rightarrow> 'a layer list \<Rightarrow> 'a layer \<Rightarrow> bool" where
  "loop_reaches version f pre l =
     ((\<forall>p\<in>set pre. \<exists>r. load_layer version (root_group f) (recorded_layer_names (Some f)) p = Inr r) \<and>
      name l \<in> set (recorded_layer_names (Some f)))"

text \<open>
  What the forward pass needs of a layer: its name and the shapes of its parameter
  arrays. A network whose layers have the names and shapes it was built with can be
  evaluated, whatever numbers the arrays hold.
\<close>

definition layer_signature :: "'a layer \<Rightarrow> string \<times> nat list list" where
  "layer_signature l = (name l, map wshape (weights l))"

subsection \<open>Health endpoint\<close>

record health =
  status :: string
  model_loaded :: bool
  model_params :: nat
  health_model_source :: string

text \<open>Lines 98 to 105. The handler returns a dictionary and raises nothing.\<close>

definition health_check :: "'a server \<Rightarrow> exn + health" where
  "health_check srv =
     Inr \<lparr>status = ''healthy'', model_loaded = True,
          model_params = count_params (model srv), health_model_source = ''h5_weights''\<rparr>"

text \<open>
  The status code the web framework answers with: 200 for a returned value, the code of
  an \<open>HTTPException\<close>, 500 for any other exception.
\<close>

definition http_status :: "exn + 'r \<Rightarrow> nat" where
  "http_status r =
     (case r of
        Inr _ \<Rightarrow> 200
      | Inl (HTTPException status_code _) \<Rightarrow> status_code
      | Inl _ \<Rightarrow> 500)"

subsection \<open>Images and arrays\<close>

type_synonym byte = "8 word"

text \<open>
  An image in mode RGB: three 8-bit bands per pixel, addressed by column and row.
\<close>

record rgb_image =
  width :: nat
  height :: nat
  getpixel :: "nat \<Rightarrow> nat \<Rightarrow> byte \<times> byte \<times> byte"

text \<open>A numeric array: its shape and the element at an index.\<close>

record ndarray =
  shape :: "nat list"
  item :: "nat list \<Rightarrow> real"

definition band :: "byte \<times> byte \<times> byte \<Rightarrow> nat \<Rightarrow> byte" where
  "band p c = (case p of (r, g, b) \<Rightarrow> if c = 0 then r else if c = 1 then g else b)"

text \<open>\<open>np.array(img)\<close>: rows first, then columns, then the three bands.\<close>

definition np_array :: "rgb_image \<Rightarrow> ndarray" where
  "np_array img =
     \<lparr>shape = [height img, width img, 3],
      item = (\<lambda>idx. case idx of [i, j, c] \<Rightarrow> real (unat (band (getpixel img j i) c)) | _ \<Rightarrow> 0)\<rparr>"

definition divide :: "ndarray \<Rightarrow> real \<Rightarrow> ndarray" where
  "divide a d = a\<lparr>item := (\<lambda>idx. item a idx / d)\<rparr>"

text \<open>\<open>np.expand_dims(a, axis=0)\<close>.\<close>

definition expand_dims :: "ndarray \<Rightarrow> ndarray" where
  "expand_dims a = \<lparr>shape = 1 # shape a, item = (\<lambda>idx. case idx of [] \<Rightarrow> 0 | b # rest \<Rightarrow> item a rest)\<rparr>"

text \<open>
  What the handler takes from its libraries and from the loaded network: the image
  decoder, the conversion of a decoded image of any mode to mode RGB, the resampling
  filter of \<open>resize\<close>, the text of an exception, and the forward pass of the network up
  to the activation of its last layer, which gives for every input of the batch the
  value that each unit of the last layer feeds to its activation function.
\<close>

record 'img env =
  image_open :: "byte list \<Rightarrow> exn + 'img"
  convert_RGB :: "'img \<Rightarrow> rgb_image"
  resample :: "rgb_image \<Rightarrow> nat \<times> nat \<Rightarrow> nat \<Rightarrow> nat \<Rightarrow> byte \<times> byte \<times> byte"
  forward :: "ndarray \<Rightarrow> exn + (nat \<Rightarrow> real) list"
  str_exn :: "exn \<Rightarrow> string"

text \<open>\<open>img.resize(size)\<close>: an image of the requested size, its pixels from the filter.\<close>

definition resize :: "'img env \<Rightarrow> rgb_image \<Rightarrow> nat \<times> nat \<Rightarrow> rgb_image" where
  "resize env img sz = \<lparr>width = fst sz, height = snd sz, getpixel = resample env img sz\<rparr>"

text \<open>Lines 119 to 123: the array \<open>img_array\<close> before the batch axis is added.\<close>

definition img_array :: "'img env \<Rightarrow> 'img \<Rightarrow> ndarray" where
  "img_array env img = divide (np_array (resize env (convert_RGB env img) (128, 128))) 255"

subsection \<open>Prediction and response\<close>

text \<open>
  Line 35, the last layer of the network: \<open>Dense(10, activation='softmax')\<close>, ten units
  whose values are normalised by softmax. \<open>model.predict\<close> returns one such vector for
  every input of the batch, or raises what the forward pass raises.
\<close>

definition softmax :: "real list \<Rightarrow> real list" where
  "softmax z = map (\<lambda>x. exp x / sum_list (map exp z)) z"

definition predict :: "'img env \<Rightarrow> ndarray \<Rightarrow> exn + real list list" where
  "predict env x =
     (case forward env x of
        Inl e \<Rightarrow> Inl e
      | Inr units \<Rightarrow> Inr (map (\<lambda>z. softmax (map z [0..<10])) units))"

definition class_names :: "string list" where
  "class_names =
     [''Bacterial_spot'', ''Early_blight'', ''Late_blight'', ''Leaf_Mold'',
      ''Septoria_leaf_spot'', ''Spider_mites'', ''Target_Spot'', ''Yellow_Leaf_Curl_Virus'',
      ''Tomato_mosaic_virus'', ''Healthy'']"

text \<open>\<open>np.argmax\<close>: the first index of the largest element; an empty vector raises.\<close>

fun argmax_from :: "nat \<Rightarrow> real \<Rightarrow> nat \<Rightarrow> real list \<Rightarrow> nat" where
  "argmax_from best_i best_v i [] = best_i"
| "argmax_from best_i best_v i (x # xs) =
     (if best_v < x then argmax_from i x (Suc i) xs else argmax_from best_i best_v (Suc i) xs)"

definition np_argmax :: "real list \<Rightarrow> exn + nat" where
  "np_argmax v =
     (case v of
        [] \<Rightarrow> Inl (ValueError ''attempt to get argmax of an empty sequence'')
      | x # xs \<Rightarrow> Inr (argmax_from 0 x 1 xs))"

definition np_max :: "real list \<Rightarrow> exn + real" where
  "np_max v =
     (case v of
        [] \<Rightarrow> Inl (ValueError ''zero-size array to reduction operation maximum'')
      | x # xs \<Rightarrow> Inr (fold max xs x))"

text \<open>
  \<open>round(x, ndigits)\<close>: to the nearest multiple of \<open>10 ^ -ndigits\<close>, a tie to the even
  one. The numbers are reals here; the binary floating-point representation is not
  modelled.
\<close>

definition round_half_even :: "real \<Rightarrow> int" where
  "round_half_even x =
     (let f = \<lfloor>x\<rfloor>; d = x - of_int f
      in if d < 1 / 2 then f else if 1 / 2 < d then f + 1 else if even f then f else f + 1)"

definition py_round :: "real \<Rightarrow> nat \<Rightarrow> real" where
  "py_round x ndigits = of_int (round_half_even (x * 10 ^ ndigits)) / 10 ^ ndigits"

record response =
  disease :: string
  confidence :: real
  is_healthy :: bool
  predicted_class_index :: nat
  all_probabilities :: "(string \<times> real) list"
  message :: string
  model_source :: string

text \<open>
  Lines 128 to 159, from the output of \<open>model.predict\<close> to the returned dictionary.
  \<open>prediction[0]\<close> raises on an empty batch, \<open>class_names[predicted_class]\<close> on an index
  past the last label, \<open>prediction[0][i]\<close> on a vector shorter than the label list. The
  dictionary \<open>all_probabilities\<close> is the list of its items in insertion order.
\<close>

definition respond :: "real list list \<Rightarrow> exn + response" where
  "respond prediction =
     (case prediction of
        [] \<Rightarrow> Inl (IndexError ''index 0 is out of bounds'')
      | p # _ \<Rightarrow>
          (case np_argmax p of
             Inl e \<Rightarrow> Inl e
           | Inr predicted_class \<Rightarrow>
               (case np_max p of
                  Inl e \<Rightarrow> Inl e
                | Inr m \<Rightarrow>
                    (let confidence = m * 100 in
                     if length class_names \<le> predicted_class
                     then Inl (IndexError ''list index out of range'')
                     else
                       (let disease_name = class_names ! predicted_class;
                            is_healthy = (disease_name = ''Healthy'')
                        in if length p < length class_names
                           then Inl (IndexError ''index is out of bounds'')
                           else Inr \<lparr>disease = disease_name,
                                     confidence = py_round confidence 2,
                                     is_healthy = is_healthy,
                                     predicted_class_index = predicted_class,
                                     all_probabilities =
                                       map (\<lambda>i. (class_names ! i, py_round (p ! i * 100) 2))
                                         [0..<length class_names],
                                     message = ''Analysis complete'',
                                     model_source = ''best_tomato_model.h5 (trained)''\<rparr>)))))"

subsection \<open>Analyze endpoint\<close>

record upload =
  content_type :: "string option"
  contents :: "byte list"

definition startswith :: "string \<Rightarrow> string \<Rightarrow> bool" where
  "startswith s prefix = (take (length prefix) s = prefix)"

text \<open>
  Lines 113 to 159, the body of the \<open>try\<close> block of \<open>analyze_image\<close>. An upload
  without a content type has \<open>content_type = None\<close>, on which \<open>startswith\<close> raises
  \<open>AttributeError\<close>.
\<close>

definition analyze_body :: "'img env \<Rightarrow> upload \<Rightarrow> exn + response" where
  "analyze_body env file =
     (case content_type file of
        None \<Rightarrow> Inl (AttributeError ''NoneType object has no attribute startswith'')
      | Some ct \<Rightarrow>
          if \<not> startswith ct ''image/''
          then Inl (HTTPException 400 ''File must be an image'')
          else
            (case image_open env (contents file) of
               Inl e \<Rightarrow> Inl e
             | Inr img \<Rightarrow>
                 (case predict env (expand_dims (img_array env img)) of
                    Inl e \<Rightarrow> Inl e
                  | Inr prediction \<Rightarrow> respond prediction)))"

text \<open>
  Lines 112 to 162: the \<open>try\<close> block with its clause \<open>except Exception as e\<close>, which
  raises \<open>HTTPException\<close> with status 500 for whatever the body raised.
\<close>

definition analyze_image :: "'img env \<Rightarrow> upload \<Rightarrow> exn + response" where
  "analyze_image env file =
     (case analyze_body env file of
        Inl e \<Rightarrow> Inl (HTTPException 500 (''Error: '' @ str_exn env e))
      | Inr r \<Rightarrow> Inr r)"

subsection \<open>A small network and container\<close>

text \<open>
  Five layers with small parameter arrays, and a container that records four of them: the
  layer \<open>dropout\<close> is not recorded, \<open>max_pooling2d\<close> is recorded with no weight names.
  The shapes stored for the bias of \<open>conv2d\<close> and for \<open>batch_normalization\<close> are
  parameters: \<open>[1]\<close> matches the layer, any other shape does not.
\<close>

definition example_net :: "nat layer list" where
  "example_net =
     [\<lparr>name = ''conv2d'', weights = [\<lparr>wshape = [2], wdata = 0\<rparr>, \<lparr>wshape = [1], wdata = 0\<rparr>]\<rparr>,
      \<lparr>name = ''batch_normalization'', weights = [\<lparr>wshape = [1], wdata = 0\<rparr>]\<rparr>,
      \<lparr>name = ''max_pooling2d'', weights = []\<rparr>,
      \<lparr>name = ''dropout'', weights = []\<rparr>,
      \<lparr>name = ''dense'', weights = [\<lparr>wshape = [1], wdata = 0\<rparr>]\<rparr>]"

definition example_group :: "nat list \<Rightarrow> nat list \<Rightarrow> nat weight_group" where
  "example_group bias_shape gamma_shape =
     \<lparr>layer_names = Some [Bytes ''conv2d'', Bytes ''batch_normalization'', Bytes ''max_pooling2d'',
                           Str ''dense''],
      groups =
        [''conv2d'' \<mapsto>
           \<lparr>weight_names = Some [Bytes ''kernel'', Bytes ''bias''],
            datasets = [''kernel'' \<mapsto> \<lparr>wshape = [2], wdata = 5\<rparr>,
                        ''bias'' \<mapsto> \<lparr>wshape = bias_shape, wdata = 6\<rparr>]\<rparr>,
         ''batch_normalization'' \<mapsto>
           \<lparr>weight_names = Some [Bytes ''gamma''],
            datasets = [''gamma'' \<mapsto> \<lparr>wshape = gamma_shape, wdata = 7\<rparr>]\<rparr>,
         ''max_pooling2d'' \<mapsto> \<lparr>weight_names = Some [], datasets = Map.empty\<rparr>,
         ''dense'' \<mapsto>
           \<lparr>weight_names = Some [Str ''kernel''],
            datasets = [''kernel'' \<mapsto> \<lparr>wshape = [1], wdata = 9\<rparr>]\<rparr>]\<rparr>"

definition example_file :: "nat list \<Rightarrow> nat list \<Rightarrow> nat h5file" where
  "example_file bias_shape gamma_shape =
     \<lparr>model_weights = Some (example_group bias_shape gamma_shape),
      top_level = \<lparr>layer_names = None, groups = Map.empty\<rparr>\<rparr>"

text \<open>
  The matching container with the sub-group of \<open>dense\<close> replaced or, with \<open>None\<close>,
  removed; and the matching container with other entries in \<open>layer_names\<close>.
\<close>

definition example_file_dense :: "nat layer_group option \<Rightarrow> nat h5file" where
  "example_file_dense gd =
     \<lparr>model_weights =
        Some ((example_group [1] [1])\<lparr>groups := (groups (example_group [1] [1]))(''dense'' := gd)\<rparr>),
      top_level = \<lparr>layer_names = None, groups = Map.empty\<rparr>\<rparr>"

definition example_file_names :: "h5str list \<Rightarrow> nat h5file" where
  "example_file_names entries =
     \<lparr>model_weights = Some ((example_group [1] [1])\<lparr>layer_names := Some entries\<rparr>),
      top_level = \<lparr>layer_names = None, groups = Map.empty\<rparr>\<rparr>"

subsection \<open>A small decoder and network for the handler\<close>

text \<open>
  A decoder for one-row greyscale images, one byte per pixel: it refuses the empty
  file. The conversion to RGB repeats the grey level in the three bands, the filter of
  \<open>resize\<close> takes the nearest pixel, and the last layer of the network favours the last
  class.
\<close>

definition example_env :: "byte list env" where
  "example_env =
     \<lparr>image_open = (\<lambda>bs. if bs = [] then Inl (UnidentifiedImageError ''cannot identify image file'')
                          else Inr bs),
      convert_RGB = (\<lambda>bs. \<lparr>width = length bs, height = 1,
                           getpixel = (\<lambda>x y. let v = (if x < length bs then bs ! x else 0)
                                              in (v, v, v))\<rparr>),
      resample = (\<lambda>img sz x y. getpixel img (x * width img div fst sz) (y * height img div snd sz)),
      forward = (\<lambda>a. Inr [\<lambda>i. if i = 9 then ln 2 else 0]),
      str_exn = (\<lambda>e. ''error'')\<rparr>"

section \<open>Properties of the weight loader\<close>

lemmas loader_defs = startup_def load_body_def root_group_def attrs_get_def load_layer_def
  set_weights_def recorded_layer_names_def assigned_layer_def count_params_def continuation_def

lemmas example_defs = example_net_def example_file_def example_group_def example_file_dense_def
  example_file_names_def

lemma load_layers_nth:
  "i < length ls \<Longrightarrow>
   fst (load_layers v wg ns ls) ! i = ls ! i \<or>
   load_layer v wg ns (ls ! i) = Inr (Some (fst (load_layers v wg ns ls) ! i)) \<or>
   (\<exists>e. load_layer v wg ns (ls ! i) = Inl (e, fst (load_layers v wg ns ls) ! i))"
proof (induction ls arbitrary: i)
  case Nil
  then show ?case by simp
next
  case (Cons l ls)
  show ?case
  proof (cases i)
    case 0
    then show ?thesis by (auto split: sum.splits prod.splits option.splits)
  next
    case (Suc j)
    with Cons.prems have "j < length ls" by simp
    from Cons.IH [OF this] Suc show ?thesis
      by (auto split: sum.splits prod.splits)
  qed
qed

lemma load_layer_absent: "name l \<notin> set ns \<Longrightarrow> load_layer v wg ns l = Inr None"
  by (simp add: load_layer_def)

lemma load_layer_no_weight_names:
  "groups wg (name l) = Some g \<Longrightarrow> attrs_get (weight_names g) = [] \<Longrightarrow> load_layer v wg ns l = Inr None"
  by (simp add: load_layer_def)

lemma load_layers_untouched:
  "i < length ls \<Longrightarrow> load_layer v wg ns (ls ! i) = Inr None \<Longrightarrow> fst (load_layers v wg ns ls) ! i = ls ! i"
  using load_layers_nth [of i ls v wg ns] by auto

lemma model_startup: "model (startup v file net) = fst (load_body v file net)"
  by (simp add: startup_def split: prod.splits option.splits)

lemma load_layers_stop:
  assumes "\<forall>p\<in>set pre. \<exists>r. load_layer v wg ns p = Inr r"
    and "load_layer v wg ns l = Inl (e, l')"
  shows "load_layers v wg ns (pre @ l # post) =
     (map (\<lambda>l. case load_layer v wg ns l of Inr (Some l') \<Rightarrow> l' | _ \<Rightarrow> l) pre @ l' # post, Some e)"
  using assms by (induction pre) (auto split: option.splits)

lemma assigned_layer_Some:
  "assigned_layer v (Some f) =
     (\<lambda>l. case load_layer v (root_group f) (recorded_layer_names (Some f)) l of
             Inr (Some l') \<Rightarrow> l' | _ \<Rightarrow> l)"
  by (rule ext) (simp add: assigned_layer_def)

text \<open>The start-up when the loop body raises at a layer.\<close>

lemma recorded_decoded:
  assumes "x \<in> set (recorded_layer_names (Some f))"
  shows "decode_names (attrs_get (layer_names (root_group f))) = Inr (recorded_layer_names (Some f))"
proof (cases "decode_names (attrs_get (layer_names (root_group f)))")
  case (Inl e)
  with assms show ?thesis by (simp add: recorded_layer_names_def)
next
  case (Inr ns)
  then show ?thesis by (simp add: recorded_layer_names_def)
qed

lemma startup_stops_at:
  assumes "loop_reaches v f pre l"
    and "load_layer v (root_group f) (recorded_layer_names (Some f)) l = Inl (e, l')"
  shows "startup v (Some f) (pre @ l # post) =
     \<lparr>model = map (assigned_layer v (Some f)) pre @ l' # post,
      printed = [MsgError e, MsgRandomWeights]\<rparr>"
proof -
  let ?ns = "recorded_layer_names (Some f)"
  from assms(1) have pre: "\<forall>p\<in>set pre. \<exists>r. load_layer v (root_group f) ?ns p = Inr r"
    and "name l \<in> set ?ns"
    by (simp_all add: loop_reaches_def)
  then have dec: "decode_names (attrs_get (layer_names (root_group f))) = Inr ?ns"
    by (simp add: recorded_decoded)
  from load_layers_stop [OF pre assms(2), of post] dec show ?thesis
    by (simp add: startup_def load_body_def assigned_layer_Some)
qed

text \<open>The ways in which the loop body raises.\<close>

lemma decode_names_undecodable:
  "decode_names xs = Inr xs' \<Longrightarrow> \<not> valid_utf8 b \<Longrightarrow>
   decode_names (xs @ Bytes b # ys) = Inl (UnicodeDecodeError ''utf-8'')"
  by (induction xs arbitrary: xs') (auto split: sum.splits)

lemma read_weights_missing:
  "\<forall>x\<in>set ds. datasets g x \<noteq> None \<Longrightarrow> datasets g d = None \<Longrightarrow>
   read_weights g (ds @ d # dt) = Inl (KeyError d)"
  by (induction ds) auto

lemma set_weights_refused:
  assumes "length ws \<noteq> length (weights l) \<or> map wshape ws \<noteq> map wshape (weights l)"
  shows "\<exists>l'. set_weights v l ws = Inl (ValueError (name l), l')"
  using assms by (auto simp: set_weights_def)

lemma load_layer_missing_group:
  "name l \<in> set ns \<Longrightarrow> groups wg (name l) = None \<Longrightarrow>
   load_layer v wg ns l = Inl (KeyError (name l), l)"
  by (simp add: load_layer_def)

lemma load_layer_undecodable:
  "name l \<in> set ns \<Longrightarrow> groups wg (name l) = Some g \<Longrightarrow>
   attrs_get (weight_names g) = ws @ Bytes wb # wt \<Longrightarrow> decode_names ws = Inr ws' \<Longrightarrow>
   \<not> valid_utf8 wb \<Longrightarrow>
   load_layer v wg ns l = Inl (UnicodeDecodeError ''utf-8'', l)"
  by (simp add: load_layer_def decode_names_undecodable)

lemma load_layer_missing_dataset:
  "name l \<in> set ns \<Longrightarrow> groups wg (name l) = Some g \<Longrightarrow>
   decode_names (attrs_get (weight_names g)) = Inr (ds @ d # dt) \<Longrightarrow>
   \<forall>x\<in>set ds. datasets g x \<noteq> None \<Longrightarrow> datasets g d = None \<Longrightarrow>
   load_layer v wg ns l = Inl (KeyError d, l)"
  by (simp add: load_layer_def read_weights_missing)

lemma load_layer_refused:
  "name l \<in> set ns \<Longrightarrow> groups wg (name l) = Some g \<Longrightarrow>
   decode_names (attrs_get (weight_names g)) = Inr wnames \<Longrightarrow>
   read_weights g wnames = Inr arrays \<Longrightarrow> arrays \<noteq> [] \<Longrightarrow>
   set_weights v l arrays = Inl (e, l') \<Longrightarrow>
   load_layer v wg ns l = Inl (e, l')"
  by (simp add: load_layer_def)

text \<open>Loading keeps the name and the shapes of every layer.\<close>

lemma assign_until_mismatch_shapes:
  "map wshape (assign_until_mismatch variables vs) = map wshape variables"
  by (induction variables vs rule: assign_until_mismatch.induct) auto

lemma set_weights_signature:
  "set_weights v l ws = Inr l' \<Longrightarrow> layer_signature l' = layer_signature l"
  "set_weights v l ws = Inl (e, l') \<Longrightarrow> layer_signature l' = layer_signature l"
  by (auto simp: set_weights_def layer_signature_def assign_until_mismatch_shapes
      split: if_splits keras.splits)

lemma load_layer_signature:
  "load_layer v wg ns l = Inr (Some l') \<Longrightarrow> layer_signature l' = layer_signature l"
  "load_layer v wg ns l = Inl (e, l') \<Longrightarrow> layer_signature l' = layer_signature l"
  by (auto simp: load_layer_def split: if_splits option.splits sum.splits
      dest: set_weights_signature)

lemma load_layers_signature:
  "map layer_signature (fst (load_layers v wg ns ls)) = map layer_signature ls"
proof (induction ls)
  case Nil
  then show ?case by simp
next
  case (Cons l ls)
  show ?case
  proof (cases "load_layer v wg ns l")
    case (Inl refused)
    then obtain e l' where "load_layer v wg ns l = Inl (e, l')" by (cases refused) simp
    then show ?thesis by (simp add: load_layer_signature)
  next
    case (Inr r)
    with Cons.IH show ?thesis
      by (cases r) (auto simp: load_layer_signature split: prod.splits)
  qed
qed

lemma load_body_signature:
  "map layer_signature (fst (load_body v file net)) = map layer_signature net"
  by (cases "file") (simp_all add: load_body_def load_layers_signature split: sum.splits)

lemma count_params_signature:
  "count_params m = sum_list (map (\<lambda>s. sum_list (map prod_list (snd s))) (map layer_signature m))"
  by (simp add: count_params_def layer_signature_def comp_def)

lemma load_body_count_params: "count_params (fst (load_body v file net)) = count_params net"
  by (simp only: count_params_signature load_body_signature)


text \<open>
  Claim C4. A layer whose name is not in the list of layer names that the container
  records is left by the loader exactly as it was before loading, and the loop body
  raises nothing for it: it ends without calling \<open>set_weights\<close>, whatever the weight
  group holds. This is so for every container, also one that cannot be opened, and
  wherever the loop stops.
\<close>

theorem absent_layer_untouched:
  assumes "i < length net"
    and "name (net ! i) \<notin> set (recorded_layer_names file)"
  shows "model (startup v file net) ! i = net ! i \<and>
         (\<forall>wg. load_layer v wg (recorded_layer_names file) (net ! i) = Inr None)"
proof -
  from assms(2) have none: "load_layer v wg (recorded_layer_names file) (net ! i) = Inr None" for wg
    by (rule load_layer_absent)
  have "fst (load_body v file net) ! i = net ! i"
  proof (cases "file")
    case None
    then show ?thesis by (simp add: load_body_def)
  next
    case (Some f)
    show ?thesis
    proof (cases "decode_names (attrs_get (layer_names (root_group f)))")
      case (Inl e)
      with Some show ?thesis by (simp add: load_body_def)
    next
      case (Inr ns)
      with Some have "recorded_layer_names file = ns" by (simp add: recorded_layer_names_def)
      with none [of "root_group f"] assms(1) Some Inr show ?thesis
        by (simp add: load_body_def load_layers_untouched)
    qed
  qed
  with none show ?thesis by (simp add: model_startup)
qed

theorem absent_layer_untouched_witness:
  "3 < length example_net \<and>
   name (example_net ! 3) \<notin> set (recorded_layer_names (Some (example_file [1] [1]))) \<and>
   model (startup Keras3 (Some (example_file [1] [1])) example_net) ! 3 =
     \<lparr>name = ''dropout'', weights = []\<rparr>"
proof -
  have h1: "3 < length example_net" by (simp add: example_net_def)
  have h2: "name (example_net ! 3) \<notin> set (recorded_layer_names (Some (example_file [1] [1])))"
    by (simp add: example_defs recorded_layer_names_def root_group_def attrs_get_def)
  have "example_net ! 3 = \<lparr>name = ''dropout'', weights = []\<rparr>" by (simp add: example_net_def)
  with absent_layer_untouched [OF h1 h2, of Keras3] h1 h2 show ?thesis by simp
qed

text \<open>
  Claim C10. A layer whose name is recorded and whose sub-group records an empty list of
  weight names is not assigned: the loop body ends without calling \<open>set_weights\<close>, and
  after loading the layer is as it was before.
\<close>

theorem empty_weight_names_no_assignment:
  assumes "i < length net"
    and "name (net ! i) \<in> set (recorded_layer_names (Some f))"
    and "groups (root_group f) (name (net ! i)) = Some g"
    and "weight_names g = Some []"
  shows "load_layer v (root_group f) (recorded_layer_names (Some f)) (net ! i) = Inr None \<and>
         model (startup v (Some f) net) ! i = net ! i"
proof -
  from assms(4) have "attrs_get (weight_names g) = []" by (simp add: attrs_get_def)
  with assms(3) have none: "load_layer v (root_group f) ns (net ! i) = Inr None" for ns
    by (rule load_layer_no_weight_names)
  from assms(2) have "decode_names (attrs_get (layer_names (root_group f))) =
      Inr (recorded_layer_names (Some f))"
    by (rule recorded_decoded)
  with none assms(1) have "fst (load_body v (Some f) net) ! i = net ! i"
    by (simp add: load_body_def load_layers_untouched)
  with none show ?thesis by (simp add: model_startup)
qed

theorem empty_weight_names_no_assignment_witness:
  "2 < length example_net \<and>
   name (example_net ! 2) \<in> set (recorded_layer_names (Some (example_file [1] [1]))) \<and>
   groups (root_group (example_file [1] [1])) (name (example_net ! 2)) =
     Some \<lparr>weight_names = Some [], datasets = Map.empty\<rparr> \<and>
   load_layer Keras3 (root_group (example_file [1] [1]))
     (recorded_layer_names (Some (example_file [1] [1]))) (example_net ! 2) = Inr None \<and>
   model (startup Keras3 (Some (example_file [1] [1])) example_net) ! 2 = example_net ! 2"
proof -
  have h1: "2 < length example_net" by (simp add: example_net_def)
  have h2: "name (example_net ! 2) \<in> set (recorded_layer_names (Some (example_file [1] [1])))"
    by (simp add: example_defs recorded_layer_names_def root_group_def attrs_get_def continuation_def)
  have h3: "groups (root_group (example_file [1] [1])) (name (example_net ! 2)) =
     Some \<lparr>weight_names = Some [], datasets = Map.empty\<rparr>"
    by (simp add: example_defs root_group_def)
  have h4: "weight_names \<lparr>weight_names = Some [], datasets = (Map.empty :: string \<rightharpoonup> nat weight)\<rparr> = Some []"
    by simp
  from empty_weight_names_no_assignment [OF h1 h2 h3 h4, of Keras3] h1 h2 h3 show ?thesis by simp
qed

text \<open>
  Claim C7. The health endpoint answers 200 with \<open>model_loaded\<close> true for every
  container and network, also when loading failed; its whole answer is the same as for
  the network before loading, since loading never changes the shape of a parameter.
\<close>

theorem health_check_always_loaded:
  "health_check (startup v file net) =
     Inr \<lparr>status = ''healthy'', model_loaded = True, model_params = count_params net,
          health_model_source = ''h5_weights''\<rparr> \<and>
   http_status (health_check (startup v file net)) = 200"
  by (simp add: health_check_def http_status_def model_startup load_body_count_params)

text \<open>
  Claim C1, as stated, fails. In the example the stored array of \<open>batch_normalization\<close>
  has shape \<open>[3]\<close> where the layer expects \<open>[1]\<close>, and the array stored for the later
  layer \<open>dense\<close> matches that layer: the loop body alone would assign it. After the
  start-up \<open>dense\<close> still has its value from before loading, with either version of
  the framework.
\<close>

theorem mismatch_only_that_layer_counterexample:
  "name (example_net ! 1) \<in> set (recorded_layer_names (Some (example_file [1] [3]))) \<and>
   load_layer Keras3 (root_group (example_file [1] [3])) (recorded_layer_names (Some (example_file [1] [3])))
     (example_net ! 1) = Inl (ValueError ''batch_normalization'', example_net ! 1) \<and>
   name (example_net ! 4) \<in> set (recorded_layer_names (Some (example_file [1] [3]))) \<and>
   load_layer Keras3 (root_group (example_file [1] [3])) (recorded_layer_names (Some (example_file [1] [3])))
     (example_net ! 4) = Inr (Some \<lparr>name = ''dense'', weights = [\<lparr>wshape = [1], wdata = 9\<rparr>]\<rparr>) \<and>
   model (startup Keras3 (Some (example_file [1] [3])) example_net) ! 4 =
     \<lparr>name = ''dense'', weights = [\<lparr>wshape = [1], wdata = 0\<rparr>]\<rparr> \<and>
   model (startup Keras2 (Some (example_file [1] [3])) example_net) ! 4 =
     \<lparr>name = ''dense'', weights = [\<lparr>wshape = [1], wdata = 0\<rparr>]\<rparr>"
  by (simp add: loader_defs example_defs)

text \<open>
  Claim C1, amended. When the loop reaches a recorded layer whose arrays can all be
  read, there is at least one of them, and their number or shapes differ from the
  layer's parameters, then \<open>set_weights\<close> raises \<open>ValueError\<close> and the loader stops
  there: the layers before it keep what was assigned to them, every later layer is as it
  was before loading, the exception is printed and the start-up ends in a server state.
  The raising layer keeps its name and the shapes of its parameters, and so does every
  layer of the network, which can therefore be evaluated. The numbers the raising layer
  holds are left open: they depend on the version of the framework.
\<close>

theorem mismatch_stops_loading:
  assumes "loop_reaches v f pre l"
    and "groups (root_group f) (name l) = Some g"
    and "decode_names (attrs_get (weight_names g)) = Inr wnames"
    and "read_weights g wnames = Inr ws"
    and "ws \<noteq> []"
    and "length ws \<noteq> length (weights l) \<or> map wshape ws \<noteq> map wshape (weights l)"
  shows "(\<exists>l'. startup v (Some f) (pre @ l # post) =
            \<lparr>model = map (assigned_layer v (Some f)) pre @ l' # post,
             printed = [MsgError (ValueError (name l)), MsgRandomWeights]\<rparr> \<and>
            layer_signature l' = layer_signature l) \<and>
         map layer_signature (model (startup v (Some f) (pre @ l # post))) =
           map layer_signature (pre @ l # post)"
proof -
  let ?ns = "recorded_layer_names (Some f)"
  from assms(1) have rec: "name l \<in> set ?ns" by (simp add: loop_reaches_def)
  from set_weights_refused [OF assms(6)] obtain l' where
    refused: "set_weights v l ws = Inl (ValueError (name l), l')" by blast
  with rec assms(2-5) have "load_layer v (root_group f) ?ns l = Inl (ValueError (name l), l')"
    by (rule load_layer_refused)
  from startup_stops_at [OF assms(1) this]
  have "startup v (Some f) (pre @ l # post) =
            \<lparr>model = map (assigned_layer v (Some f)) pre @ l' # post,
             printed = [MsgError (ValueError (name l)), MsgRandomWeights]\<rparr>" .
  moreover from refused have "layer_signature l' = layer_signature l"
    by (rule set_weights_signature)
  moreover have "map layer_signature (model (startup v (Some f) (pre @ l # post))) =
           map layer_signature (pre @ l # post)"
    by (simp only: model_startup load_body_signature)
  ultimately show ?thesis by blast
qed

theorem mismatch_stops_loading_witness:
  "loop_reaches Keras3 (example_file [1] [3]) (take 1 example_net) (example_net ! 1) \<and>
   (\<exists>l'. startup Keras3 (Some (example_file [1] [3])) example_net =
      \<lparr>model = \<lparr>name = ''conv2d'', weights = [\<lparr>wshape = [2], wdata = 5\<rparr>, \<lparr>wshape = [1], wdata = 6\<rparr>]\<rparr>
         # l' # drop 2 example_net,
       printed = [MsgError (ValueError ''batch_normalization''), MsgRandomWeights]\<rparr> \<and>
      layer_signature l' = (''batch_normalization'', [[1]])) \<and>
   map layer_signature (model (startup Keras3 (Some (example_file [1] [3])) example_net)) =
     map layer_signature example_net"
proof -
  let ?f = "example_file [1] [3]"
  let ?g = "\<lparr>weight_names = Some [Bytes ''gamma''],
             datasets = [''gamma'' \<mapsto> \<lparr>wshape = [3::nat], wdata = 7::nat\<rparr>]\<rparr>"
  have split: "take 1 example_net @ (example_net ! 1) # drop 2 example_net = example_net"
    by (simp add: example_net_def)
  have h1: "loop_reaches Keras3 ?f (take 1 example_net) (example_net ! 1)"
    by (simp add: loop_reaches_def loader_defs example_defs)
  have h2: "groups (root_group ?f) (name (example_net ! 1)) = Some ?g"
    by (simp add: loader_defs example_defs)
  have h3: "decode_names (attrs_get (weight_names ?g)) = Inr [''gamma'']"
    by (simp add: attrs_get_def)
  have h4: "read_weights ?g [''gamma''] = Inr [\<lparr>wshape = [3], wdata = 7\<rparr>]"
    by simp
  have h5: "[\<lparr>wshape = [3::nat], wdata = 7::nat\<rparr>] \<noteq> []" by simp
  have h6: "length [\<lparr>wshape = [3::nat], wdata = 7::nat\<rparr>] \<noteq> length (weights (example_net ! 1)) \<or>
       map wshape [\<lparr>wshape = [3::nat], wdata = 7::nat\<rparr>] \<noteq> map wshape (weights (example_net ! 1))"
    by (simp add: example_net_def)
  have a: "map (assigned_layer Keras3 (Some ?f)) (take 1 example_net) =
      [\<lparr>name = ''conv2d'', weights = [\<lparr>wshape = [2], wdata = 5\<rparr>, \<lparr>wshape = [1], wdata = 6\<rparr>]\<rparr>]"
    by (simp add: loader_defs example_defs)
  have s: "layer_signature (example_net ! 1) = (''batch_normalization'', [[1]])"
    by (simp add: layer_signature_def example_net_def)
  have n: "name (example_net ! 1) = ''batch_normalization''" by (simp add: example_net_def)
  from mismatch_stops_loading [OF h1 h2 h3 h4 h5 h6, of "drop 2 example_net"]
  show ?thesis unfolding split a s n using h1 by simp
qed

text \<open>
  Claim C3. Every exception of the loading procedure is caught by the \<open>except\<close> clause:
  the start-up ends in a server state whose output names the exception and whose
  network is the one the procedure had reached. Source by source: the container does
  not open (\<open>OSError\<close>, the network untouched); an entry of \<open>layer_names\<close> cannot be
  decoded (\<open>UnicodeDecodeError\<close>, the network untouched); and, when the loop reaches a
  recorded layer after the layers \<open>pre\<close>, its sub-group is missing (\<open>KeyError\<close>), an entry
  of its \<open>weight_names\<close> cannot be decoded (\<open>UnicodeDecodeError\<close>), one of its named
  datasets is missing (\<open>KeyError\<close> of the first such name), or \<open>set_weights\<close> refuses
  its arrays (\<open>ValueError\<close>). In each of these the layers \<open>pre\<close> are as the loader
  assigned them, the layers after the raising one are as they were before loading, and
  the raising layer is as the body left it: untouched, or as the refused \<open>set_weights\<close>
  left it. Whatever happens, every layer keeps its name and the shapes of its
  parameters.
\<close>

theorem loader_exception_caught:
  "startup v None net =
     \<lparr>model = net, printed = [MsgError (OSError h5_path), MsgRandomWeights]\<rparr>
   \<and>
   (attrs_get (layer_names (root_group f)) = xs @ Bytes b # ys \<and> decode_names xs = Inr xs' \<and>
    \<not> valid_utf8 b \<longrightarrow>
      startup v (Some f) net =
        \<lparr>model = net, printed = [MsgError (UnicodeDecodeError ''utf-8''), MsgRandomWeights]\<rparr>)
   \<and>
   (loop_reaches v f pre l \<and> groups (root_group f) (name l) = None \<longrightarrow>
      startup v (Some f) (pre @ l # post) =
        \<lparr>model = map (assigned_layer v (Some f)) pre @ l # post,
         printed = [MsgError (KeyError (name l)), MsgRandomWeights]\<rparr>)
   \<and>
   (loop_reaches v f pre l \<and> groups (root_group f) (name l) = Some g \<and>
    attrs_get (weight_names g) = ws @ Bytes wb # wt \<and> decode_names ws = Inr ws' \<and>
    \<not> valid_utf8 wb \<longrightarrow>
      startup v (Some f) (pre @ l # post) =
        \<lparr>model = map (assigned_layer v (Some f)) pre @ l # post,
         printed = [MsgError (UnicodeDecodeError ''utf-8''), MsgRandomWeights]\<rparr>)
   \<and>
   (loop_reaches v f pre l \<and> groups (root_group f) (name l) = Some g \<and>
    decode_names (attrs_get (weight_names g)) = Inr (ds @ d # dt) \<and>
    (\<forall>x\<in>set ds. datasets g x \<noteq> None) \<and> datasets g d = None \<longrightarrow>
      startup v (Some f) (pre @ l # post) =
        \<lparr>model = map (assigned_layer v (Some f)) pre @ l # post,
         printed = [MsgError (KeyError d), MsgRandomWeights]\<rparr>)
   \<and>
   (loop_reaches v f pre l \<and> groups (root_group f) (name l) = Some g \<and>
    decode_names (attrs_get (weight_names g)) = Inr wnames \<and>
    read_weights g wnames = Inr arrays \<and> arrays \<noteq> [] \<and>
    (length arrays \<noteq> length (weights l) \<or> map wshape arrays \<noteq> map wshape (weights l)) \<longrightarrow>
      (\<exists>l'. set_weights v l arrays = Inl (ValueError (name l), l') \<and>
            startup v (Some f) (pre @ l # post) =
              \<lparr>model = map (assigned_layer v (Some f)) pre @ l' # post,
               printed = [MsgError (ValueError (name l)), MsgRandomWeights]\<rparr>))
   \<and>
   map layer_signature (model (startup v file net)) = map layer_signature net"
proof (intro conjI impI)
  show "startup v None net =
     \<lparr>model = net, printed = [MsgError (OSError h5_path), MsgRandomWeights]\<rparr>"
    by (simp add: startup_def load_body_def)
next
  assume "attrs_get (layer_names (root_group f)) = xs @ Bytes b # ys \<and> decode_names xs = Inr xs' \<and>
    \<not> valid_utf8 b"
  then have "decode_names (attrs_get (layer_names (root_group f))) = Inl (UnicodeDecodeError ''utf-8'')"
    by (simp add: decode_names_undecodable)
  then show "startup v (Some f) net =
        \<lparr>model = net, printed = [MsgError (UnicodeDecodeError ''utf-8''), MsgRandomWeights]\<rparr>"
    by (simp add: startup_def load_body_def)
next
  assume h: "loop_reaches v f pre l \<and> groups (root_group f) (name l) = None"
  then have "name l \<in> set (recorded_layer_names (Some f))" by (simp add: loop_reaches_def)
  with h have "load_layer v (root_group f) (recorded_layer_names (Some f)) l = Inl (KeyError (name l), l)"
    by (simp add: load_layer_missing_group)
  with h show "startup v (Some f) (pre @ l # post) =
        \<lparr>model = map (assigned_layer v (Some f)) pre @ l # post,
         printed = [MsgError (KeyError (name l)), MsgRandomWeights]\<rparr>"
    by (simp add: startup_stops_at)
next
  assume h: "loop_reaches v f pre l \<and> groups (root_group f) (name l) = Some g \<and>
    attrs_get (weight_names g) = ws @ Bytes wb # wt \<and> decode_names ws = Inr ws' \<and>
    \<not> valid_utf8 wb"
  then have "name l \<in> set (recorded_layer_names (Some f))" by (simp add: loop_reaches_def)
  with h have "load_layer v (root_group f) (recorded_layer_names (Some f)) l =
      Inl (UnicodeDecodeError ''utf-8'', l)"
    by (blast intro: load_layer_undecodable)
  with h show "startup v (Some f) (pre @ l # post) =
        \<lparr>model = map (assigned_layer v (Some f)) pre @ l # post,
         printed = [MsgError (UnicodeDecodeError ''utf-8''), MsgRandomWeights]\<rparr>"
    by (simp add: startup_stops_at)
next
  assume h: "loop_reaches v f pre l \<and> groups (root_group f) (name l) = Some g \<and>
    decode_names (attrs_get (weight_names g)) = Inr (ds @ d # dt) \<and>
    (\<forall>x\<in>set ds. datasets g x \<noteq> None) \<and> datasets g d = None"
  then have "name l \<in> set (recorded_layer_names (Some f))" by (simp add: loop_reaches_def)
  with h have "load_layer v (root_group f) (recorded_layer_names (Some f)) l = Inl (KeyError d, l)"
    by (blast intro: load_layer_missing_dataset)
  with h show "startup v (Some f) (pre @ l # post) =
        \<lparr>model = map (assigned_layer v (Some f)) pre @ l # post,
         printed = [MsgError (KeyError d), MsgRandomWeights]\<rparr>"
    by (simp add: startup_stops_at)
next
  assume h: "loop_reaches v f pre l \<and> groups (root_group f) (name l) = Some g \<and>
    decode_names (attrs_get (weight_names g)) = Inr wnames \<and>
    read_weights g wnames = Inr arrays \<and> arrays \<noteq> [] \<and>
    (length arrays \<noteq> length (weights l) \<or> map wshape arrays \<noteq> map wshape (weights l))"
  then have rec: "name l \<in> set (recorded_layer_names (Some f))" by (simp add: loop_reaches_def)
  from h have "length arrays \<noteq> length (weights l) \<or> map wshape arrays \<noteq> map wshape (weights l)"
    by simp
  from set_weights_refused [OF this] obtain l' where
    refused: "set_weights v l arrays = Inl (ValueError (name l), l')" by blast
  with rec h have "load_layer v (root_group f) (recorded_layer_names (Some f)) l =
      Inl (ValueError (name l), l')"
    by (blast intro: load_layer_refused)
  with h have "startup v (Some f) (pre @ l # post) =
              \<lparr>model = map (assigned_layer v (Some f)) pre @ l' # post,
               printed = [MsgError (ValueError (name l)), MsgRandomWeights]\<rparr>"
    by (simp add: startup_stops_at)
  with refused show "\<exists>l'. set_weights v l arrays = Inl (ValueError (name l), l') \<and>
            startup v (Some f) (pre @ l # post) =
              \<lparr>model = map (assigned_layer v (Some f)) pre @ l' # post,
               printed = [MsgError (ValueError (name l)), MsgRandomWeights]\<rparr>"
    by blast
next
  show "map layer_signature (model (startup v file net)) = map layer_signature net"
    by (simp only: model_startup load_body_signature)
qed


theorem loader_exception_caught_witness:
  "startup Keras3 None example_net =
     \<lparr>model = example_net,
      printed = [MsgError (OSError ''best_tomato_model.h5''), MsgRandomWeights]\<rparr> \<and>
   startup Keras3 (Some (example_file_names [Bytes ''conv2d'', Bytes [CHR 0xFF], Str ''dense''])) example_net =
     \<lparr>model = example_net,
      printed = [MsgError (UnicodeDecodeError ''utf-8''), MsgRandomWeights]\<rparr> \<and>
   startup Keras3 (Some (example_file_dense None)) example_net =
     \<lparr>model =
        [\<lparr>name = ''conv2d'', weights = [\<lparr>wshape = [2], wdata = 5\<rparr>, \<lparr>wshape = [1], wdata = 6\<rparr>]\<rparr>,
         \<lparr>name = ''batch_normalization'', weights = [\<lparr>wshape = [1], wdata = 7\<rparr>]\<rparr>,
         \<lparr>name = ''max_pooling2d'', weights = []\<rparr>,
         \<lparr>name = ''dropout'', weights = []\<rparr>,
         \<lparr>name = ''dense'', weights = [\<lparr>wshape = [1], wdata = 0\<rparr>]\<rparr>],
      printed = [MsgError (KeyError ''dense''), MsgRandomWeights]\<rparr> \<and>
   startup Keras3
     (Some (example_file_dense
        (Some \<lparr>weight_names = Some [Str ''kernel'', Bytes [CHR 0xC3]],
               datasets = [''kernel'' \<mapsto> \<lparr>wshape = [1], wdata = 9\<rparr>]\<rparr>))) example_net =
     \<lparr>model =
        [\<lparr>name = ''conv2d'', weights = [\<lparr>wshape = [2], wdata = 5\<rparr>, \<lparr>wshape = [1], wdata = 6\<rparr>]\<rparr>,
         \<lparr>name = ''batch_normalization'', weights = [\<lparr>wshape = [1], wdata = 7\<rparr>]\<rparr>,
         \<lparr>name = ''max_pooling2d'', weights = []\<rparr>,
         \<lparr>name = ''dropout'', weights = []\<rparr>,
         \<lparr>name = ''dense'', weights = [\<lparr>wshape = [1], wdata = 0\<rparr>]\<rparr>],
      printed = [MsgError (UnicodeDecodeError ''utf-8''), MsgRandomWeights]\<rparr> \<and>
   startup Keras3
     (Some (example_file_dense
        (Some \<lparr>weight_names = Some [Str ''kernel'', Str ''bias''],
               datasets = [''kernel'' \<mapsto> \<lparr>wshape = [1], wdata = 9\<rparr>]\<rparr>))) example_net =
     \<lparr>model =
        [\<lparr>name = ''conv2d'', weights = [\<lparr>wshape = [2], wdata = 5\<rparr>, \<lparr>wshape = [1], wdata = 6\<rparr>]\<rparr>,
         \<lparr>name = ''batch_normalization'', weights = [\<lparr>wshape = [1], wdata = 7\<rparr>]\<rparr>,
         \<lparr>name = ''max_pooling2d'', weights = []\<rparr>,
         \<lparr>name = ''dropout'', weights = []\<rparr>,
         \<lparr>name = ''dense'', weights = [\<lparr>wshape = [1], wdata = 0\<rparr>]\<rparr>],
      printed = [MsgError (KeyError ''bias''), MsgRandomWeights]\<rparr> \<and>
   startup Keras3 (Some (example_file [3] [1])) example_net =
     \<lparr>model =
        \<lparr>name = ''conv2d'', weights = [\<lparr>wshape = [2], wdata = 5\<rparr>, \<lparr>wshape = [1], wdata = 0\<rparr>]\<rparr>
          # drop 1 example_net,
      printed = [MsgError (ValueError ''conv2d''), MsgRandomWeights]\<rparr> \<and>
   startup Keras2 (Some (example_file [3] [1])) example_net =
     \<lparr>model = example_net, printed = [MsgError (ValueError ''conv2d''), MsgRandomWeights]\<rparr>"
proof -
  let ?assigned =
    "[\<lparr>name = ''conv2d'', weights = [\<lparr>wshape = [2], wdata = 5::nat\<rparr>, \<lparr>wshape = [1], wdata = 6\<rparr>]\<rparr>,
      \<lparr>name = ''batch_normalization'', weights = [\<lparr>wshape = [1], wdata = 7\<rparr>]\<rparr>,
      \<lparr>name = ''max_pooling2d'', weights = []\<rparr>,
      \<lparr>name = ''dropout'', weights = []\<rparr>]"
  have split4: "take 4 example_net @ (example_net ! 4) # [] = example_net"
    and split0: "[] @ (example_net ! 0) # drop 1 example_net = example_net"
    by (simp_all add: example_net_def)
  have dense: "example_net ! 4 = \<lparr>name = ''dense'', weights = [\<lparr>wshape = [1], wdata = 0\<rparr>]\<rparr>"
    and conv: "example_net ! 0 =
      \<lparr>name = ''conv2d'', weights = [\<lparr>wshape = [2], wdata = 0\<rparr>, \<lparr>wshape = [1], wdata = 0\<rparr>]\<rparr>"
    by (simp_all add: example_net_def)

  \<comment> \<open>the container does not open\<close>
  have c1: "startup Keras3 None example_net =
     \<lparr>model = example_net, printed = [MsgError (OSError ''best_tomato_model.h5''), MsgRandomWeights]\<rparr>"
    using loader_exception_caught [where v = Keras3 and net = example_net, THEN conjunct1]
    by (simp add: h5_path_def)

  \<comment> \<open>an entry of the layer names cannot be decoded\<close>
  let ?fn = "example_file_names [Bytes ''conv2d'', Bytes [CHR 0xFF], Str ''dense'']"
  have "attrs_get (layer_names (root_group ?fn)) = [Bytes ''conv2d''] @ Bytes [CHR 0xFF] # [Str ''dense''] \<and>
        decode_names [Bytes ''conv2d''] = Inr [''conv2d''] \<and> \<not> valid_utf8 [CHR 0xFF]"
    by (simp add: example_defs root_group_def attrs_get_def)
  from loader_exception_caught [where v = Keras3 and f = ?fn and net = example_net,
      THEN conjunct2, THEN conjunct1, rule_format, OF this]
  have c2: "startup Keras3 (Some ?fn) example_net =
     \<lparr>model = example_net, printed = [MsgError (UnicodeDecodeError ''utf-8''), MsgRandomWeights]\<rparr>" .

  \<comment> \<open>the sub-group of a recorded layer is missing\<close>
  let ?f3 = "example_file_dense None"
  have a3: "map (assigned_layer Keras3 (Some ?f3)) (take 4 example_net) = ?assigned"
    by (simp add: loader_defs example_defs)
  have "loop_reaches Keras3 ?f3 (take 4 example_net) (example_net ! 4) \<and>
        groups (root_group ?f3) (name (example_net ! 4)) = None"
    by (simp add: loop_reaches_def loader_defs example_defs)
  from loader_exception_caught [where v = Keras3 and f = ?f3 and pre = "take 4 example_net"
        and l = "example_net ! 4" and post = "[]",
      THEN conjunct2, THEN conjunct2, THEN conjunct1, rule_format, OF this]
  have c3: "startup Keras3 (Some ?f3) example_net =
     \<lparr>model = ?assigned @ [\<lparr>name = ''dense'', weights = [\<lparr>wshape = [1], wdata = 0\<rparr>]\<rparr>],
      printed = [MsgError (KeyError ''dense''), MsgRandomWeights]\<rparr>"
    unfolding split4 a3 by (simp add: dense)

  \<comment> \<open>an entry of the weight names cannot be decoded\<close>
  let ?g4 = "\<lparr>weight_names = Some [Str ''kernel'', Bytes [CHR 0xC3]],
              datasets = [''kernel'' \<mapsto> \<lparr>wshape = [1::nat], wdata = 9::nat\<rparr>]\<rparr>"
  let ?f4 = "example_file_dense (Some ?g4)"
  have a4: "map (assigned_layer Keras3 (Some ?f4)) (take 4 example_net) = ?assigned"
    by (simp add: loader_defs example_defs)
  have "loop_reaches Keras3 ?f4 (take 4 example_net) (example_net ! 4) \<and>
        groups (root_group ?f4) (name (example_net ! 4)) = Some ?g4 \<and>
        attrs_get (weight_names ?g4) = [Str ''kernel''] @ Bytes [CHR 0xC3] # [] \<and>
        decode_names [Str ''kernel''] = Inr [''kernel''] \<and> \<not> valid_utf8 [CHR 0xC3]"
    by (simp add: loop_reaches_def loader_defs example_defs)
  from loader_exception_caught [where v = Keras3 and f = ?f4 and pre = "take 4 example_net"
        and l = "example_net ! 4" and post = "[]",
      THEN conjunct2, THEN conjunct2, THEN conjunct2, THEN conjunct1, rule_format, OF this]
  have c4: "startup Keras3 (Some ?f4) example_net =
     \<lparr>model = ?assigned @ [\<lparr>name = ''dense'', weights = [\<lparr>wshape = [1], wdata = 0\<rparr>]\<rparr>],
      printed = [MsgError (UnicodeDecodeError ''utf-8''), MsgRandomWeights]\<rparr>"
    unfolding split4 a4 by (simp add: dense)

  \<comment> \<open>a named dataset is missing\<close>
  let ?g5 = "\<lparr>weight_names = Some [Str ''kernel'', Str ''bias''],
              datasets = [''kernel'' \<mapsto> \<lparr>wshape = [1::nat], wdata = 9::nat\<rparr>]\<rparr>"
  let ?f5 = "example_file_dense (Some ?g5)"
  have a5: "map (assigned_layer Keras3 (Some ?f5)) (take 4 example_net) = ?assigned"
    by (simp add: loader_defs example_defs)
  have "loop_reaches Keras3 ?f5 (take 4 example_net) (example_net ! 4) \<and>
        groups (root_group ?f5) (name (example_net ! 4)) = Some ?g5 \<and>
        decode_names (attrs_get (weight_names ?g5)) = Inr ([''kernel''] @ ''bias'' # []) \<and>
        (\<forall>x\<in>set [''kernel'']. datasets ?g5 x \<noteq> None) \<and> datasets ?g5 ''bias'' = None"
    by (simp add: loop_reaches_def loader_defs example_defs)
  from loader_exception_caught [where v = Keras3 and f = ?f5 and pre = "take 4 example_net"
        and l = "example_net ! 4" and post = "[]",
      THEN conjunct2, THEN conjunct2, THEN conjunct2, THEN conjunct2, THEN conjunct1,
      rule_format, OF this]
  have c5: "startup Keras3 (Some ?f5) example_net =
     \<lparr>model = ?assigned @ [\<lparr>name = ''dense'', weights = [\<lparr>wshape = [1], wdata = 0\<rparr>]\<rparr>],
      printed = [MsgError (KeyError ''bias''), MsgRandomWeights]\<rparr>"
    unfolding split4 a5 by (simp add: dense)

  \<comment> \<open>an assignment is refused\<close>
  let ?f6 = "example_file [3] [1]"
  let ?g6 = "\<lparr>weight_names = Some [Bytes ''kernel'', Bytes ''bias''],
              datasets = [''kernel'' \<mapsto> \<lparr>wshape = [2::nat], wdata = 5::nat\<rparr>,
                          ''bias'' \<mapsto> \<lparr>wshape = [3], wdata = 6\<rparr>]\<rparr>"
  let ?arrays = "[\<lparr>wshape = [2::nat], wdata = 5::nat\<rparr>, \<lparr>wshape = [3], wdata = 6\<rparr>]"
  have h6: "loop_reaches v ?f6 [] (example_net ! 0) \<and>
        groups (root_group ?f6) (name (example_net ! 0)) = Some ?g6 \<and>
        decode_names (attrs_get (weight_names ?g6)) = Inr [''kernel'', ''bias''] \<and>
        read_weights ?g6 [''kernel'', ''bias''] = Inr ?arrays \<and> ?arrays \<noteq> [] \<and>
        (length ?arrays \<noteq> length (weights (example_net ! 0)) \<or>
         map wshape ?arrays \<noteq> map wshape (weights (example_net ! 0)))" for v
    by (simp add: loop_reaches_def loader_defs example_defs)
  have s3: "set_weights Keras3 (example_net ! 0) ?arrays =
      Inl (ValueError ''conv2d'',
           \<lparr>name = ''conv2d'', weights = [\<lparr>wshape = [2], wdata = 5\<rparr>, \<lparr>wshape = [1], wdata = 0\<rparr>]\<rparr>)"
    and s2: "set_weights Keras2 (example_net ! 0) ?arrays = Inl (ValueError ''conv2d'', example_net ! 0)"
    by (simp_all add: set_weights_def example_net_def)
  from loader_exception_caught [where v = Keras3 and f = ?f6 and pre = "[]"
        and l = "example_net ! 0" and post = "drop 1 example_net",
      THEN conjunct2, THEN conjunct2, THEN conjunct2, THEN conjunct2, THEN conjunct2,
      THEN conjunct1, rule_format, OF h6]
  have c6: "startup Keras3 (Some ?f6) example_net =
     \<lparr>model =
        \<lparr>name = ''conv2d'', weights = [\<lparr>wshape = [2], wdata = 5\<rparr>, \<lparr>wshape = [1], wdata = 0\<rparr>]\<rparr>
          # drop 1 example_net,
      printed = [MsgError (ValueError ''conv2d''), MsgRandomWeights]\<rparr>"
    unfolding split0 s3 by (auto simp: conv)
  from loader_exception_caught [where v = Keras2 and f = ?f6 and pre = "[]"
        and l = "example_net ! 0" and post = "drop 1 example_net",
      THEN conjunct2, THEN conjunct2, THEN conjunct2, THEN conjunct2, THEN conjunct2,
      THEN conjunct1, rule_format, OF h6]
  have c7: "startup Keras2 (Some ?f6) example_net =
     \<lparr>model = example_net, printed = [MsgError (ValueError ''conv2d''), MsgRandomWeights]\<rparr>"
    unfolding split0 s2 by (auto simp: example_net_def)
  from c1 c2 c3 c4 c5 c6 c7 show ?thesis by simp
qed

section \<open>Properties of the request handlers\<close>

lemma class_names_length: "length class_names = 10"
  by (simp add: class_names_def)

lemma class_names_distinct: "distinct class_names"
  by (simp add: class_names_def)

lemma class_names_9: "class_names ! 9 = ''Healthy''"
  by (simp add: class_names_def)

lemma class_names_healthy:
  assumes "k < length class_names"
  shows "(class_names ! k = ''Healthy'') = (k = 9)"
proof -
  have "(class_names ! k = class_names ! 9) = (k = 9)"
    using assms by (intro nth_eq_iff_index_eq class_names_distinct) (simp_all add: class_names_length)
  then show ?thesis by (simp only: class_names_9)
qed

text \<open>What a successful request went through.\<close>

lemma analyze_image_Inr:
  assumes "analyze_image env file = Inr r"
  obtains ct img prediction where
    "content_type file = Some ct" "startswith ct ''image/''"
    "image_open env (contents file) = Inr img"
    "predict env (expand_dims (img_array env img)) = Inr prediction"
    "respond prediction = Inr r"
  using assms
  by (auto simp: analyze_image_def analyze_body_def split: sum.splits option.splits if_splits)

lemma respond_Inr:
  assumes "respond prediction = Inr r"
  obtains p rest k m where
    "prediction = p # rest" "np_argmax p = Inr k" "np_max p = Inr m"
    "k < length class_names" "length class_names \<le> length p"
    "r = \<lparr>disease = class_names ! k,
          confidence = py_round (m * 100) 2,
          is_healthy = (class_names ! k = ''Healthy''),
          predicted_class_index = k,
          all_probabilities = map (\<lambda>i. (class_names ! i, py_round (p ! i * 100) 2)) [0..<length class_names],
          message = ''Analysis complete'',
          model_source = ''best_tomato_model.h5 (trained)''\<rparr>"
  using assms
  by (auto simp: respond_def Let_def split: list.splits sum.splits if_splits)

text \<open>The first index of the largest element.\<close>

lemma fold_max_ge: "(b::real) \<le> fold max xs b"
proof (induction xs arbitrary: b)
  case Nil
  then show ?case by simp
next
  case (Cons x xs)
  have "b \<le> max x b" by simp
  also have "\<dots> \<le> fold max xs (max x b)" by (rule Cons.IH)
  finally show ?case by simp
qed

lemma fold_max_ge_elem: "x \<in> set xs \<Longrightarrow> (x::real) \<le> fold max xs b"
proof (induction xs arbitrary: b)
  case Nil
  then show ?case by simp
next
  case (Cons y ys)
  show ?case
  proof (cases "x = y")
    case True
    have "x \<le> max y b" using True by simp
    also have "\<dots> \<le> fold max ys (max y b)" by (rule fold_max_ge)
    finally show ?thesis by simp
  next
    case False
    with Cons.prems have "x \<in> set ys" by simp
    then show ?thesis by (simp add: Cons.IH)
  qed
qed

lemma argmax_from_first:
  assumes "i = length pre" "bi < length pre" "pre ! bi = bv"
    and "\<forall>j<length pre. pre ! j \<le> bv" "\<forall>j<bi. pre ! j < bv"
  shows "argmax_from bi bv i xs < length (pre @ xs) \<and>
         (pre @ xs) ! argmax_from bi bv i xs = fold max xs bv \<and>
         (\<forall>j<argmax_from bi bv i xs. (pre @ xs) ! j < fold max xs bv)"
  using assms
proof (induction xs arbitrary: pre bi bv i)
  case Nil
  then show ?case by simp
next
  case (Cons x xs)
  show ?case
  proof (cases "bv < x")
    case True
    have "argmax_from i x (Suc i) xs < length ((pre @ [x]) @ xs) \<and>
         ((pre @ [x]) @ xs) ! argmax_from i x (Suc i) xs = fold max xs x \<and>
         (\<forall>j<argmax_from i x (Suc i) xs. ((pre @ [x]) @ xs) ! j < fold max xs x)"
    proof (rule Cons.IH)
      show "Suc i = length (pre @ [x])" using Cons.prems(1) by simp
      show "i < length (pre @ [x])" using Cons.prems(1) by simp
      show "(pre @ [x]) ! i = x" using Cons.prems(1) by simp
      have below: "pre ! j < x" if "j < length pre" for j
      proof -
        from that Cons.prems(4) have "pre ! j \<le> bv" by simp
        with True show ?thesis by simp
      qed
      show "\<forall>j<length (pre @ [x]). (pre @ [x]) ! j \<le> x"
      proof (intro allI impI)
        fix j assume "j < length (pre @ [x])"
        then have "j < length pre \<or> j = length pre" by auto
        then show "(pre @ [x]) ! j \<le> x"
          using below [of j] by (auto simp: nth_append)
      qed
      show "\<forall>j<i. (pre @ [x]) ! j < x"
        using Cons.prems(1) below by (simp add: nth_append)
    qed
    moreover have "max x bv = x" using True by simp
    ultimately show ?thesis using True by simp
  next
    case False
    have "argmax_from bi bv (Suc i) xs < length ((pre @ [x]) @ xs) \<and>
         ((pre @ [x]) @ xs) ! argmax_from bi bv (Suc i) xs = fold max xs bv \<and>
         (\<forall>j<argmax_from bi bv (Suc i) xs. ((pre @ [x]) @ xs) ! j < fold max xs bv)"
    proof (rule Cons.IH)
      show "Suc i = length (pre @ [x])" using Cons.prems(1) by simp
      show "bi < length (pre @ [x])" using Cons.prems(2) by simp
      show "(pre @ [x]) ! bi = bv" using Cons.prems(2,3) by (simp add: nth_append)
      show "\<forall>j<length (pre @ [x]). (pre @ [x]) ! j \<le> bv"
        using Cons.prems(4) False by (auto simp: nth_append less_Suc_eq)
      show "\<forall>j<bi. (pre @ [x]) ! j < bv"
        using Cons.prems(2,5) by (auto simp: nth_append)
    qed
    moreover have "max x bv = bv" using False by simp
    ultimately show ?thesis using False by simp
  qed
qed

lemma np_argmax_max:
  assumes "np_argmax p = Inr k" and "np_max p = Inr m"
  shows "k < length p \<and> p ! k = m \<and> (\<forall>j<length p. p ! j \<le> m) \<and> (\<forall>j<k. p ! j < m)"
proof (cases p)
  case Nil
  with assms show ?thesis by (simp add: np_argmax_def)
next
  case (Cons x xs)
  with assms have k: "k = argmax_from 0 x 1 xs" and m: "m = fold max xs x"
    by (simp_all add: np_argmax_def np_max_def)
  have "argmax_from 0 x 1 xs < length ([x] @ xs) \<and>
        ([x] @ xs) ! argmax_from 0 x 1 xs = fold max xs x \<and>
        (\<forall>j<argmax_from 0 x 1 xs. ([x] @ xs) ! j < fold max xs x)"
    by (rule argmax_from_first) simp_all
  moreover have "\<forall>j<length p. p ! j \<le> m"
  proof (intro allI impI)
    fix j assume "j < length p"
    then have "p ! j \<in> set p" by simp
    then have "p ! j = x \<or> p ! j \<in> set xs" using Cons by simp
    then show "p ! j \<le> m"
      using fold_max_ge [of x xs] fold_max_ge_elem [of "p ! j" xs x] m by auto
  qed
  ultimately show ?thesis using Cons k m by simp
qed

text \<open>Rounding to two decimals moves a number by at most half a hundredth.\<close>

lemma round_half_even_close: "\<bar>of_int (round_half_even y) - y\<bar> \<le> 1 / 2"
proof -
  have "of_int \<lfloor>y\<rfloor> \<le> y" "y < of_int \<lfloor>y\<rfloor> + 1" by linarith+
  then show ?thesis
    by (auto simp: round_half_even_def Let_def abs_le_iff)
qed

lemma py_round_close: "\<bar>py_round x 2 - x\<bar> \<le> 1 / 200"
proof -
  have "\<bar>of_int (round_half_even (x * 100)) - x * 100\<bar> \<le> 1 / 2"
    by (rule round_half_even_close)
  moreover have "py_round x 2 = of_int (round_half_even (x * 100)) / 100"
    by (simp add: py_round_def)
  ultimately show ?thesis by linarith
qed

lemma sum_rounded_close:
  "\<bar>sum_list (map (\<lambda>x. py_round (x * 100) 2) p) - 100 * sum_list p\<bar> \<le> real (length p) / 200"
proof (induction p)
  case Nil
  then show ?case by simp
next
  case (Cons x p)
  have "\<bar>py_round (x * 100) 2 - x * 100\<bar> \<le> 1 / 200" by (rule py_round_close)
  moreover have "real (length (x # p)) / 200 = real (length p) / 200 + 1 / 200"
    by (simp add: add_divide_distrib)
  moreover have "sum_list (map (\<lambda>x. py_round (x * 100) 2) (x # p)) - 100 * sum_list (x # p) =
      (py_round (x * 100) 2 - x * 100) + (sum_list (map (\<lambda>x. py_round (x * 100) 2) p) - 100 * sum_list p)"
    by (simp add: algebra_simps)
  ultimately show ?case using Cons.IH by linarith
qed

lemma sum_list_map_divide: "sum_list (map (\<lambda>x. f x / (c::real)) xs) = sum_list (map f xs) / c"
  by (induction xs) (simp_all add: add_divide_distrib)

lemma sum_list_exp_pos: "z \<noteq> [] \<Longrightarrow> 0 < sum_list (map exp (z::real list))"
proof (induction z)
  case Nil
  then show ?case by simp
next
  case (Cons x z)
  have "0 \<le> sum_list (map exp z)" by (rule sum_list_nonneg) auto
  moreover have "0 < exp x" by simp
  ultimately show ?case by (simp add: add_pos_nonneg)
qed

lemma softmax_sum: "z \<noteq> [] \<Longrightarrow> sum_list (softmax z) = 1"
  using sum_list_exp_pos [of z] by (simp add: softmax_def sum_list_map_divide)

lemma predict_rows:
  assumes "predict env x = Inr prediction" and "p \<in> set prediction"
  shows "length p = 10 \<and> sum_list p = 1"
proof -
  from assms obtain z where "p = softmax (map z [0..<10])"
    by (auto simp: predict_def split: sum.splits)
  moreover have "map z [0..<10] \<noteq> []" by simp
  ultimately show ?thesis by (simp add: softmax_sum) (simp add: softmax_def)
qed

lemma map_of_indexed:
  assumes "distinct xs" and "k < length xs"
  shows "map_of (map (\<lambda>i. (xs ! i, f i)) [0..<length xs]) (xs ! k) = Some (f k)"
proof -
  have "map fst (map (\<lambda>i. (xs ! i, f i)) [0..<length xs]) = xs"
    by (simp add: comp_def map_nth)
  with assms(1) have "distinct (map fst (map (\<lambda>i. (xs ! i, f i)) [0..<length xs]))" by simp
  moreover have "(xs ! k, f k) \<in> set (map (\<lambda>i. (xs ! i, f i)) [0..<length xs])"
    using assms(2) by auto
  ultimately show ?thesis by (simp only: map_of_eq_Some_iff)
qed


lemmas handler_defs = analyze_image_def analyze_body_def startswith_def predict_def softmax_def
  respond_def np_argmax_def np_max_def class_names_def py_round_def round_half_even_def

text \<open>
  Claim C2 says that an upload whose content type does not start with \<open>image/\<close> is
  answered with status 400. The handler raises \<open>HTTPException\<close> with status 400 inside
  its own \<open>try\<close> block, whose \<open>except Exception\<close> clause catches it and raises status
  500 instead: for the content type \<open>text/plain\<close> the answer is 500.
\<close>

theorem non_image_upload_status_500:
  "analyze_body env \<lparr>content_type = Some ''text/plain'', contents = bytes\<rparr> =
     Inl (HTTPException 400 ''File must be an image'') \<and>
   analyze_image env \<lparr>content_type = Some ''text/plain'', contents = bytes\<rparr> =
     Inl (HTTPException 500 (''Error: '' @ str_exn env (HTTPException 400 ''File must be an image''))) \<and>
   http_status (analyze_image env \<lparr>content_type = Some ''text/plain'', contents = bytes\<rparr>) = 500"
  by (simp add: analyze_image_def analyze_body_def startswith_def http_status_def)

lemma byte_unit_interval: "0 \<le> real (unat (b::byte)) / 255 \<and> real (unat b) / 255 \<le> 1"
proof -
  have "unat b < 2 ^ LENGTH(8)" by (rule unsigned_less)
  then have "unat b \<le> 255" by simp
  then have "real (unat b) \<le> real 255" by (simp only: of_nat_le_iff)
  moreover have "0 \<le> real (unat b)" by (rule of_nat_0_le_iff)
  ultimately show ?thesis by simp
qed

text \<open>
  Claim C5. For every decoded image, whatever its size and mode, the array that the
  handler computes at lines 119 to 123 has shape 128 by 128 by 3 and every element of it
  lies between 0 and 1; the batch given to the network has shape 1 by 128 by 128 by 3.
\<close>

theorem img_array_shape_range:
  "shape (img_array env img) = [128, 128, 3] \<and>
   (\<forall>i<128. \<forall>j<128. \<forall>c<3.
      0 \<le> item (img_array env img) [i, j, c] \<and> item (img_array env img) [i, j, c] \<le> 1) \<and>
   shape (expand_dims (img_array env img)) = [1, 128, 128, 3]"
  using byte_unit_interval
  by (simp add: img_array_def divide_def np_array_def resize_def expand_dims_def)

theorem img_array_shape_range_witness:
  "shape (img_array example_env [200, 17]) = [128, 128, 3] \<and>
   item (img_array example_env [200, 17]) [5, 100, 1] = 1 / 15 \<and>
   0 \<le> item (img_array example_env [200, 17]) [5, 100, 1] \<and>
   item (img_array example_env [200, 17]) [5, 100, 1] \<le> 1"
proof -
  have v: "item (img_array example_env [200, 17]) [5, 100, 1] = 1 / 15"
    by (simp add: img_array_def divide_def np_array_def resize_def example_env_def band_def)
  from img_array_shape_range [of example_env "[200, 17]"]
  have "shape (img_array example_env [200, 17]) = [128, 128, 3]"
    and "0 \<le> item (img_array example_env [200, 17]) [5, 100, 1] \<and>
         item (img_array example_env [200, 17]) [5, 100, 1] \<le> 1"
    by simp_all
  with v show ?thesis by simp
qed

text \<open>
  Claim C6. In every successful response the keys of \<open>all_probabilities\<close> are the ten
  class labels, each once, and its ten values add up to 100 within 0.1.
\<close>

theorem all_probabilities_labels_sum:
  assumes "analyze_image env file = Inr r"
  shows "map fst (all_probabilities r) =
           [''Bacterial_spot'', ''Early_blight'', ''Late_blight'', ''Leaf_Mold'',
            ''Septoria_leaf_spot'', ''Spider_mites'', ''Target_Spot'', ''Yellow_Leaf_Curl_Virus'',
            ''Tomato_mosaic_virus'', ''Healthy''] \<and>
         distinct (map fst (all_probabilities r)) \<and>
         length (all_probabilities r) = 10 \<and>
         \<bar>sum_list (map snd (all_probabilities r)) - 100\<bar> \<le> 1 / 10"
proof -
  from assms obtain ct img prediction where
    pred: "predict env (expand_dims (img_array env img)) = Inr prediction"
    and resp: "respond prediction = Inr r"
    by (rule analyze_image_Inr)
  from resp obtain p rest where
    p: "prediction = p # rest"
    and probs: "all_probabilities r =
      map (\<lambda>i. (class_names ! i, py_round (p ! i * 100) 2)) [0..<length class_names]"
    by (rule respond_Inr) simp
  from pred p have len: "length p = 10" and total: "sum_list p = 1"
    using predict_rows [of env _ prediction p] by simp_all
  have keys: "map fst (all_probabilities r) = class_names"
    by (simp add: probs comp_def map_nth)
  have "map snd (all_probabilities r) = map (\<lambda>i. py_round (p ! i * 100) 2) [0..<length p]"
    by (simp add: probs comp_def len class_names_length)
  also have "\<dots> = map (\<lambda>x. py_round (x * 100) 2) (map ((!) p) [0..<length p])"
    by (simp add: comp_def)
  also have "\<dots> = map (\<lambda>x. py_round (x * 100) 2) p"
    by (simp only: map_nth)
  finally have "\<bar>sum_list (map snd (all_probabilities r)) - 100 * sum_list p\<bar> \<le> real (length p) / 200"
    by (simp only: sum_rounded_close)
  with len total have "\<bar>sum_list (map snd (all_probabilities r)) - 100\<bar> \<le> 1 / 10"
    by simp
  moreover have "length (all_probabilities r) = 10"
    by (simp add: probs class_names_length)
  moreover have "distinct (map fst (all_probabilities r))"
    by (simp only: keys class_names_distinct)
  ultimately show ?thesis using keys by (simp add: class_names_def)
qed

theorem all_probabilities_labels_sum_witness:
  "(\<exists>r. analyze_image example_env \<lparr>content_type = Some ''image/png'', contents = [200, 17]\<rparr> = Inr r \<and>
        map snd (all_probabilities r) =
          [909 / 100, 909 / 100, 909 / 100, 909 / 100, 909 / 100, 909 / 100, 909 / 100, 909 / 100,
           909 / 100, 909 / 50] \<and>
        \<bar>sum_list (map snd (all_probabilities r)) - 100\<bar> \<le> 1 / 10)"
proof -
  obtain r where r: "analyze_image example_env \<lparr>content_type = Some ''image/png'', contents = [200, 17]\<rparr> = Inr r"
    and v: "map snd (all_probabilities r) =
          [909 / 100, 909 / 100, 909 / 100, 909 / 100, 909 / 100, 909 / 100, 909 / 100, 909 / 100,
           909 / 100, 909 / 50]"
    by (simp add: handler_defs example_env_def upt_rec Let_def)
  from all_probabilities_labels_sum [OF r] r v show ?thesis by auto
qed

text \<open>
  Claim C8. In every successful response \<open>is_healthy\<close> is true exactly when the
  predicted class index is 9, and exactly when the disease label is \<open>Healthy\<close>, the
  last class label; the predicted class index is the first index of the largest
  element of the prediction vector.
\<close>

theorem is_healthy_iff_class_9:
  assumes "analyze_image env file = Inr r"
  shows "(is_healthy r \<longleftrightarrow> predicted_class_index r = 9) \<and>
         (is_healthy r \<longleftrightarrow> disease r = ''Healthy'') \<and>
         disease r = class_names ! predicted_class_index r \<and>
         last class_names = ''Healthy'' \<and>
         (\<exists>img p rest.
            image_open env (contents file) = Inr img \<and>
            predict env (expand_dims (img_array env img)) = Inr (p # rest) \<and>
            predicted_class_index r < length p \<and>
            (\<forall>j<length p. p ! j \<le> p ! predicted_class_index r) \<and>
            (\<forall>j<predicted_class_index r. p ! j < p ! predicted_class_index r))"
proof -
  from assms obtain ct img prediction where
    img: "image_open env (contents file) = Inr img"
    and pred: "predict env (expand_dims (img_array env img)) = Inr prediction"
    and resp: "respond prediction = Inr r"
    by (rule analyze_image_Inr)
  from resp obtain p rest k m where
    p: "prediction = p # rest"
    and k: "np_argmax p = Inr k" and m: "np_max p = Inr m"
    and kl: "k < length class_names"
    and r: "disease r = class_names ! k" "is_healthy r = (class_names ! k = ''Healthy'')"
      "predicted_class_index r = k"
    by (rule respond_Inr) simp
  from np_argmax_max [OF k m]
  have arg: "k < length p" "\<forall>j<length p. p ! j \<le> p ! k" "\<forall>j<k. p ! j < p ! k"
    by simp_all
  have "last class_names = ''Healthy''" by (simp add: class_names_def)
  moreover have "is_healthy r \<longleftrightarrow> predicted_class_index r = 9"
    using class_names_healthy [OF kl] r by simp
  moreover have "\<exists>img p rest.
            image_open env (contents file) = Inr img \<and>
            predict env (expand_dims (img_array env img)) = Inr (p # rest) \<and>
            predicted_class_index r < length p \<and>
            (\<forall>j<length p. p ! j \<le> p ! predicted_class_index r) \<and>
            (\<forall>j<predicted_class_index r. p ! j < p ! predicted_class_index r)"
    using img pred p arg r(3) by blast
  ultimately show ?thesis using r by simp
qed

theorem is_healthy_iff_class_9_witness:
  "(\<exists>r. analyze_image example_env \<lparr>content_type = Some ''image/png'', contents = [200, 17]\<rparr> = Inr r \<and>
        is_healthy r \<and> predicted_class_index r = 9 \<and> disease r = ''Healthy'')"
proof -
  obtain r where r: "analyze_image example_env \<lparr>content_type = Some ''image/png'', contents = [200, 17]\<rparr> = Inr r"
    and v: "predicted_class_index r = 9"
    by (simp add: handler_defs example_env_def upt_rec Let_def)
  from is_healthy_iff_class_9 [OF r] r v show ?thesis by blast
qed

text \<open>
  Claim C9. In every successful response \<open>confidence\<close> is the value that
  \<open>all_probabilities\<close> holds for the returned disease label: the probability of the
  predicted class times 100, rounded to two decimals.
\<close>

theorem confidence_is_probability_of_disease:
  assumes "analyze_image env file = Inr r"
  shows "map_of (all_probabilities r) (disease r) = Some (confidence r) \<and>
         (\<exists>img p rest.
            image_open env (contents file) = Inr img \<and>
            predict env (expand_dims (img_array env img)) = Inr (p # rest) \<and>
            confidence r = py_round (p ! predicted_class_index r * 100) 2)"
proof -
  from assms obtain ct img prediction where
    img: "image_open env (contents file) = Inr img"
    and pred: "predict env (expand_dims (img_array env img)) = Inr prediction"
    and resp: "respond prediction = Inr r"
    by (rule analyze_image_Inr)
  from resp obtain p rest k m where
    p: "prediction = p # rest"
    and k: "np_argmax p = Inr k" and m: "np_max p = Inr m"
    and kl: "k < length class_names"
    and r: "disease r = class_names ! k" "confidence r = py_round (m * 100) 2"
      "predicted_class_index r = k"
      "all_probabilities r =
         map (\<lambda>i. (class_names ! i, py_round (p ! i * 100) 2)) [0..<length class_names]"
    by (rule respond_Inr) simp
  from np_argmax_max [OF k m] have pk: "p ! k = m" by simp
  have "map_of (all_probabilities r) (disease r) = Some (py_round (p ! k * 100) 2)"
    unfolding r(1) r(4) using class_names_distinct kl by (rule map_of_indexed)
  with pk r(2) have "map_of (all_probabilities r) (disease r) = Some (confidence r)" by simp
  moreover have "confidence r = py_round (p ! predicted_class_index r * 100) 2"
    using pk r(2,3) by simp
  ultimately show ?thesis using img pred p by blast
qed

theorem confidence_is_probability_of_disease_witness:
  "(\<exists>r. analyze_image example_env \<lparr>content_type = Some ''image/png'', contents = [200, 17]\<rparr> = Inr r \<and>
        confidence r = 909 / 50 \<and>
        map_of (all_probabilities r) (disease r) = Some (909 / 50))"
proof -
  obtain r where r: "analyze_image example_env \<lparr>content_type = Some ''image/png'', contents = [200, 17]\<rparr> = Inr r"
    and v: "confidence r = 909 / 50"
    by (simp add: handler_defs example_env_def upt_rec Let_def)
  from confidence_is_probability_of_disease [OF r] r v show ?thesis by auto
qed

end
